theory Spec2Isabelle
  imports Main "HOL-Library.Word" "HOL-Library.AList"
begin

section \<open>JavaScript strings\<close>

text \<open>
  A JavaScript string is a sequence of 16-bit code units. String literals of the
  source are written \<open>js ''...''\<close>: every character of such a literal is an ASCII
  character and becomes the code unit of the same number.
\<close>

type_synonym jschar = "16 word"
type_synonym jsstring = "jschar list"

definition js :: "string \<Rightarrow> jsstring" where
  "js s = map of_char s"

text \<open>
  A string, or \<open>null\<close>/\<open>undefined\<close> (\<open>None\<close>), used as a condition: only the
  non-empty string is truthy.
\<close>

definition truthy :: "jsstring option \<Rightarrow> bool" where
  "truthy v = (case v of None \<Rightarrow> False | Some s \<Rightarrow> s \<noteq> [])"

text \<open>The decimal digits \<open>0\<close> to \<open>9\<close>: the regular-expression class \<open>\d\<close>.\<close>

definition isDigit :: "jschar \<Rightarrow> bool" where
  "isDigit c = (0x30 \<le> c \<and> c \<le> 0x39)"

section \<open>JSON values and \<open>JSON.parse\<close>\<close>

text \<open>
  The values \<open>JSON.parse\<close> produces. \<open>JNull\<close> is JavaScript's \<open>null\<close>. A number keeps
  the text it was written with (its IEEE double is not computed; no property below
  compares numbers). An object is the list of its properties in the order of their
  first appearance; a repeated key keeps its place and takes the later value.
\<close>

datatype json =
    JNull
  | JBool bool
  | JNumber jsstring
  | JString jsstring
  | JArray "json list"
  | JObject "(jsstring \<times> json) list"

text \<open>
  \<open>JSON.parse\<close> is the platform's function, not the repository's. It is modelled
  after the JSON grammar of ECMA-262 (24.5.1) in two passes: the text is cut into
  tokens, and a pushdown automaton builds the value from the tokens. The result
  \<open>None\<close> stands for the \<open>SyntaxError\<close> that \<open>JSON.parse\<close> throws.
\<close>

definition isJSONWhitespace :: "jschar \<Rightarrow> bool" where
  "isJSONWhitespace c = (c = 0x09 \<or> c = 0x0A \<or> c = 0x0D \<or> c = 0x20)"

datatype json_token =
    TLBrace | TRBrace | TLBracket | TRBracket | TColon | TComma
  | TString jsstring | TNumber jsstring | TTrue | TFalse | TNull

definition hexValue :: "jschar \<Rightarrow> jschar option" where
  "hexValue c =
     (if 0x30 \<le> c \<and> c \<le> 0x39 then Some (c - 0x30)
      else if 0x41 \<le> c \<and> c \<le> 0x46 then Some (c - 0x41 + 10)
      else if 0x61 \<le> c \<and> c \<le> 0x66 then Some (c - 0x61 + 10)
      else None)"

definition hex4 :: "jschar \<Rightarrow> jschar \<Rightarrow> jschar \<Rightarrow> jschar \<Rightarrow> jschar option" where
  "hex4 a b c d =
     (case (hexValue a, hexValue b, hexValue c, hexValue d) of
        (Some x, Some y, Some z, Some w) \<Rightarrow> Some (((x * 16 + y) * 16 + z) * 16 + w)
      | _ \<Rightarrow> None)"

text \<open>The character after a backslash, for the escapes \<open>\" \\ \/ \b \f \n \r \t\<close>.\<close>

definition simpleEscape :: "jschar \<Rightarrow> jschar option" where
  "simpleEscape e =
     (if e = 0x22 then Some 0x22
      else if e = 0x5C then Some 0x5C
      else if e = 0x2F then Some 0x2F
      else if e = 0x62 then Some 0x08
      else if e = 0x66 then Some 0x0C
      else if e = 0x6E then Some 0x0A
      else if e = 0x72 then Some 0x0D
      else if e = 0x74 then Some 0x09
      else None)"

text \<open>
  The rest of a string literal after its opening quote: the characters it denotes,
  and the text after the closing quote. A control character below U+0020 and an
  unknown escape are errors.
\<close>

fun lex_string :: "jsstring \<Rightarrow> (jsstring \<times> jsstring) option" where
  "lex_string [] = None"
| "lex_string (c # cs) =
     (if c = 0x22 then Some ([], cs)
      else if c = 0x5C then
        (case cs of
           [] \<Rightarrow> None
         | e # es \<Rightarrow>
             if e = 0x75 then
               (case es of
                  h1 # h2 # h3 # h4 # rest \<Rightarrow>
                    (case hex4 h1 h2 h3 h4 of
                       None \<Rightarrow> None
                     | Some u \<Rightarrow> map_option (apfst (Cons u)) (lex_string rest))
                | _ \<Rightarrow> None)
             else
               (case simpleEscape e of
                  None \<Rightarrow> None
                | Some x \<Rightarrow> map_option (apfst (Cons x)) (lex_string es)))
      else if c < 0x20 then None
      else map_option (apfst (Cons c)) (lex_string cs))"

text \<open>
  A number: an optional minus, an integer part (\<open>0\<close>, or a non-zero digit and more
  digits), an optional fraction and an optional exponent.
\<close>

fun lex_minus :: "jsstring \<Rightarrow> jsstring \<times> jsstring" where
  "lex_minus [] = ([], [])"
| "lex_minus (c # cs) = (if c = 0x2D then ([c], cs) else ([], c # cs))"

fun lex_int :: "jsstring \<Rightarrow> (jsstring \<times> jsstring) option" where
  "lex_int [] = None"
| "lex_int (d # ds) =
     (if d = 0x30 then Some ([d], ds)
      else if isDigit d then Some (d # takeWhile isDigit ds, dropWhile isDigit ds)
      else None)"

fun lex_frac :: "jsstring \<Rightarrow> (jsstring \<times> jsstring) option" where
  "lex_frac [] = Some ([], [])"
| "lex_frac (c # cs) =
     (if c = 0x2E then
        (if takeWhile isDigit cs = [] then None
         else Some (c # takeWhile isDigit cs, dropWhile isDigit cs))
      else Some ([], c # cs))"

fun lex_sign :: "jsstring \<Rightarrow> jsstring \<times> jsstring" where
  "lex_sign [] = ([], [])"
| "lex_sign (c # cs) = (if c = 0x2B \<or> c = 0x2D then ([c], cs) else ([], c # cs))"

fun lex_exp :: "jsstring \<Rightarrow> (jsstring \<times> jsstring) option" where
  "lex_exp [] = Some ([], [])"
| "lex_exp (c # cs) =
     (if c = 0x65 \<or> c = 0x45 then
        (case lex_sign cs of
           (sg, r) \<Rightarrow>
             if takeWhile isDigit r = [] then None
             else Some (c # sg @ takeWhile isDigit r, dropWhile isDigit r))
      else Some ([], c # cs))"

definition lex_number :: "jsstring \<Rightarrow> (jsstring \<times> jsstring) option" where
  "lex_number s =
     (case lex_minus s of
        (sg, r0) \<Rightarrow>
          (case lex_int r0 of
             None \<Rightarrow> None
           | Some (i, r1) \<Rightarrow>
               (case lex_frac r1 of
                  None \<Rightarrow> None
                | Some (f, r2) \<Rightarrow>
                    (case lex_exp r2 of
                       None \<Rightarrow> None
                     | Some (e, r3) \<Rightarrow> Some (sg @ i @ f @ e, r3)))))"

text \<open>Every literal read takes at least one character: the tokenizer terminates.\<close>

lemma lex_string_rest: "lex_string s = Some (t, r) \<Longrightarrow> length r < length s"
proof (induction s arbitrary: t r rule: lex_string.induct)
  case 1
  then show ?case by simp
next
  case (2 c cs)
  then show ?case
    by (fastforce split: if_splits list.splits option.splits simp: apfst_def map_prod_def)
qed

lemma lex_minus_rest: "lex_minus s = (t, r) \<Longrightarrow> length r \<le> length s"
  by (cases s) (auto split: if_splits)

lemma lex_sign_rest: "lex_sign s = (t, r) \<Longrightarrow> length r \<le> length s"
  by (cases s) (auto split: if_splits)

lemma lex_int_rest: "lex_int s = Some (t, r) \<Longrightarrow> length r < length s"
  by (cases s) (auto split: if_splits simp: less_Suc_eq_le length_dropWhile_le)

lemma lex_frac_rest: "lex_frac s = Some (t, r) \<Longrightarrow> length r \<le> length s"
  by (cases s) (auto split: if_splits simp: le_SucI length_dropWhile_le)

lemma lex_exp_rest: "lex_exp s = Some (t, r) \<Longrightarrow> length r \<le> length s"
proof (cases s)
  case Nil
  assume "lex_exp s = Some (t, r)"
  with Nil show ?thesis by simp
next
  case (Cons c cs)
  assume a: "lex_exp s = Some (t, r)"
  show ?thesis
  proof (cases "c = 0x65 \<or> c = 0x45")
    case True
    obtain sg q where q: "lex_sign cs = (sg, q)" by (cases "lex_sign cs")
    with a Cons True have "r = dropWhile isDigit q"
      by (auto split: if_splits)
    moreover have "length (dropWhile isDigit q) \<le> length q"
      by (rule length_dropWhile_le)
    moreover have "length q \<le> length cs"
      using q by (rule lex_sign_rest)
    ultimately show ?thesis using Cons by simp
  next
    case False
    with a Cons show ?thesis by auto
  qed
qed

lemma lex_number_rest: "lex_number s = Some (t, r) \<Longrightarrow> length r < length s"
  unfolding lex_number_def
  by (auto split: prod.splits option.splits
      dest!: lex_minus_rest lex_int_rest lex_frac_rest lex_exp_rest)

function tokenize :: "jsstring \<Rightarrow> json_token list option" where
  "tokenize [] = Some []"
| "tokenize (c # cs) =
     (if isJSONWhitespace c then tokenize cs
      else if c = 0x7B then map_option (Cons TLBrace) (tokenize cs)
      else if c = 0x7D then map_option (Cons TRBrace) (tokenize cs)
      else if c = 0x5B then map_option (Cons TLBracket) (tokenize cs)
      else if c = 0x5D then map_option (Cons TRBracket) (tokenize cs)
      else if c = 0x3A then map_option (Cons TColon) (tokenize cs)
      else if c = 0x2C then map_option (Cons TComma) (tokenize cs)
      else if c = 0x22 then
        (case lex_string cs of
           None \<Rightarrow> None
         | Some (s, rest) \<Rightarrow> map_option (Cons (TString s)) (tokenize rest))
      else if c = 0x2D \<or> isDigit c then
        (case lex_number (c # cs) of
           None \<Rightarrow> None
         | Some (n, rest) \<Rightarrow> map_option (Cons (TNumber n)) (tokenize rest))
      else if take 4 (c # cs) = js ''true'' then map_option (Cons TTrue) (tokenize (drop 3 cs))
      else if take 5 (c # cs) = js ''false'' then map_option (Cons TFalse) (tokenize (drop 4 cs))
      else if take 4 (c # cs) = js ''null'' then map_option (Cons TNull) (tokenize (drop 3 cs))
      else None)"
  by pat_completeness auto
termination
  by (relation "measure length")
     (auto dest: lex_string_rest lex_number_rest simp: less_Suc_eq_le)

text \<open>
  The automaton. Its mode says what may come next; its stack holds the arrays and
  objects that are still open, innermost first, an object's pending key above the
  object.
\<close>

datatype parse_mode =
    WantValue
  | WantValueOrClose
  | WantKey
  | WantKeyOrClose
  | WantColon
  | Have json

datatype frame =
    FArr "json list"
  | FObj "(jsstring \<times> json) list"
  | FKey jsstring

fun begin_value :: "frame list \<Rightarrow> json_token \<Rightarrow> (parse_mode \<times> frame list) option" where
  "begin_value st TNull = Some (Have JNull, st)"
| "begin_value st TTrue = Some (Have (JBool True), st)"
| "begin_value st TFalse = Some (Have (JBool False), st)"
| "begin_value st (TNumber n) = Some (Have (JNumber n), st)"
| "begin_value st (TString s) = Some (Have (JString s), st)"
| "begin_value st TLBracket = Some (WantValueOrClose, FArr [] # st)"
| "begin_value st TLBrace = Some (WantKeyOrClose, FObj [] # st)"
| "begin_value st _ = None"

fun begin_key :: "frame list \<Rightarrow> json_token \<Rightarrow> (parse_mode \<times> frame list) option" where
  "begin_key st (TString k) = Some (WantColon, FKey k # st)"
| "begin_key st _ = None"

fun after_value ::
  "json \<Rightarrow> frame list \<Rightarrow> json_token \<Rightarrow> (parse_mode \<times> frame list) option" where
  "after_value v (FArr es # st) TComma = Some (WantValue, FArr (es @ [v]) # st)"
| "after_value v (FArr es # st) TRBracket = Some (Have (JArray (es @ [v])), st)"
| "after_value v (FKey k # FObj ms # st) TComma =
     Some (WantKey, FObj (AList.update k v ms) # st)"
| "after_value v (FKey k # FObj ms # st) TRBrace =
     Some (Have (JObject (AList.update k v ms)), st)"
| "after_value v _ _ = None"

fun pda_step ::
  "parse_mode \<Rightarrow> frame list \<Rightarrow> json_token \<Rightarrow> (parse_mode \<times> frame list) option" where
  "pda_step WantValue st t = begin_value st t"
| "pda_step WantValueOrClose st t =
     (case (t, st) of
        (TRBracket, FArr es # st') \<Rightarrow> Some (Have (JArray es), st')
      | _ \<Rightarrow> begin_value st t)"
| "pda_step WantKey st t = begin_key st t"
| "pda_step WantKeyOrClose st t =
     (case (t, st) of
        (TRBrace, FObj ms # st') \<Rightarrow> Some (Have (JObject ms), st')
      | _ \<Rightarrow> begin_key st t)"
| "pda_step WantColon st t = (if t = TColon then Some (WantValue, st) else None)"
| "pda_step (Have v) st t = after_value v st t"

fun parse_tokens :: "parse_mode \<Rightarrow> frame list \<Rightarrow> json_token list \<Rightarrow> json option" where
  "parse_tokens (Have v) [] [] = Some v"
| "parse_tokens m st [] = None"
| "parse_tokens m st (t # ts) =
     (case pda_step m st t of
        None \<Rightarrow> None
      | Some (m', st') \<Rightarrow> parse_tokens m' st' ts)"

definition JSON_parse :: "jsstring \<Rightarrow> json option" where
  "JSON_parse text =
     (case tokenize text of
        None \<Rightarrow> None
      | Some ts \<Rightarrow> parse_tokens WantValue [] ts)"

section \<open>\<open>JSON.stringify\<close> of a user record\<close>

text \<open>
  \<open>QuoteJSONString\<close> of ECMA-262 (24.5.2.2): the named escapes, \<open>\uXXXX\<close> (lower-case
  hexadecimal) for the other control characters and for a surrogate that is not
  part of a pair, and every other code unit as it is.
\<close>

definition hexDigit :: "jschar \<Rightarrow> jschar" where
  "hexDigit v = (if v < 10 then 0x30 + v else 0x61 + (v - 10))"

definition unicodeEscape :: "jschar \<Rightarrow> jsstring" where
  "unicodeEscape c =
     [0x5C, 0x75, hexDigit (c div 0x1000), hexDigit (c div 0x100 mod 0x10),
      hexDigit (c div 0x10 mod 0x10), hexDigit (c mod 0x10)]"

definition quoteUnit :: "jschar \<Rightarrow> jsstring" where
  "quoteUnit c =
     (if c = 0x08 then [0x5C, 0x62]
      else if c = 0x09 then [0x5C, 0x74]
      else if c = 0x0A then [0x5C, 0x6E]
      else if c = 0x0C then [0x5C, 0x66]
      else if c = 0x0D then [0x5C, 0x72]
      else if c = 0x22 then [0x5C, 0x22]
      else if c = 0x5C then [0x5C, 0x5C]
      else if c < 0x20 then unicodeEscape c
      else [c])"

definition isLeadingSurrogate :: "jschar \<Rightarrow> bool" where
  "isLeadingSurrogate c = (0xD800 \<le> c \<and> c \<le> 0xDBFF)"

definition isTrailingSurrogate :: "jschar \<Rightarrow> bool" where
  "isTrailingSurrogate c = (0xDC00 \<le> c \<and> c \<le> 0xDFFF)"

fun quoteUnits :: "jsstring \<Rightarrow> jsstring" where
  "quoteUnits [] = []"
| "quoteUnits [c] =
     (if isLeadingSurrogate c \<or> isTrailingSurrogate c then unicodeEscape c else quoteUnit c)"
| "quoteUnits (c # d # ds) =
     (if isLeadingSurrogate c \<and> isTrailingSurrogate d then c # d # quoteUnits ds
      else if isLeadingSurrogate c \<or> isTrailingSurrogate c
        then unicodeEscape c @ quoteUnits (d # ds)
      else quoteUnit c @ quoteUnits (d # ds))"

definition QuoteJSONString :: "jsstring \<Rightarrow> jsstring" where
  "QuoteJSONString s = 0x22 # quoteUnits s @ [0x22]"

text \<open>
  Modelled from the spec: the type declarations of \<open>types/auth\<close> (\<open>User\<close>,
  \<open>AuthState\<close>, \<open>LoginCredentials\<close>, \<open>AuthResponse\<close>), which the source imports but
  which are not among the source files. The fields are the ones the source reads
  and writes: \<open>id\<close>, \<open>email\<close>, \<open>name\<close>, the optional \<open>avatar\<close>, \<open>provider\<close> (one of
  \<open>'email'\<close> and \<open>'google'\<close>) and \<open>createdAt\<close> of a user; \<open>email\<close> and \<open>password\<close> of
  the credentials; \<open>user\<close> and \<open>token\<close> of a response.
\<close>

datatype Provider = email_provider | google_provider

record User =
  user_id :: jsstring
  user_email :: jsstring
  user_name :: jsstring
  user_avatar :: "jsstring option"
  user_provider :: Provider
  user_createdAt :: jsstring

record LoginCredentials =
  cred_email :: jsstring
  cred_password :: jsstring

record AuthResponse =
  resp_user :: User
  resp_token :: jsstring

definition provider_string :: "Provider \<Rightarrow> jsstring" where
  "provider_string p = (case p of email_provider \<Rightarrow> js ''email'' | google_provider \<Rightarrow> js ''google'')"

text \<open>The user object as a JavaScript value, its properties in the order the source writes them.\<close>

definition User_value :: "User \<Rightarrow> json" where
  "User_value u =
     JObject
       ([(js ''id'', JString (user_id u)),
         (js ''email'', JString (user_email u)),
         (js ''name'', JString (user_name u))]
        @ (case user_avatar u of None \<Rightarrow> [] | Some a \<Rightarrow> [(js ''avatar'', JString a)])
        @ [(js ''provider'', JString (provider_string (user_provider u))),
           (js ''createdAt'', JString (user_createdAt u))])"

text \<open>\<open>JSON.stringify\<close> of such an object: its properties in order, no white space.\<close>

definition member_text :: "jsstring \<Rightarrow> jsstring \<Rightarrow> jsstring" where
  "member_text k v = QuoteJSONString k @ js '':'' @ QuoteJSONString v"

definition JSON_stringify_User :: "User \<Rightarrow> jsstring" where
  "JSON_stringify_User u =
     js ''{'' @ member_text (js ''id'') (user_id u)
     @ js '','' @ member_text (js ''email'') (user_email u)
     @ js '','' @ member_text (js ''name'') (user_name u)
     @ (case user_avatar u of
          None \<Rightarrow> []
        | Some a \<Rightarrow> js '','' @ member_text (js ''avatar'') a)
     @ js '','' @ member_text (js ''provider'') (provider_string (user_provider u))
     @ js '','' @ member_text (js ''createdAt'') (user_createdAt u)
     @ js ''}''"

section \<open>Session store: state and reducer\<close>

text \<open>
  The \<open>user\<close> of the state is a JavaScript value: the startup restore stores
  whatever \<open>JSON.parse\<close> returned, so the field ranges over \<open>json\<close>, with \<open>JNull\<close>
  for \<open>null\<close>. The token is a string or \<open>null\<close> (\<open>None\<close>).
\<close>

record AuthState =
  user :: json
  token :: "jsstring option"
  isLoading :: bool
  isAuthenticated :: bool

datatype AuthAction =
    SET_LOADING bool
  | SET_USER json jsstring
  | CLEAR_USER

fun authReducer :: "AuthState \<Rightarrow> AuthAction \<Rightarrow> AuthState" where
  "authReducer state (SET_LOADING payload) = state\<lparr>isLoading := payload\<rparr>"
| "authReducer state (SET_USER payload_user payload_token) =
     state\<lparr>user := payload_user, token := Some payload_token,
           isAuthenticated := True, isLoading := False\<rparr>"
| "authReducer state CLEAR_USER =
     \<lparr>user = JNull, token = None, isLoading = False, isAuthenticated = False\<rparr>"

definition initialState :: AuthState where
  "initialState = \<lparr>user = JNull, token = None, isLoading = True, isAuthenticated = False\<rparr>"

text \<open>
  The invariant of the spec, \<open>isAuthenticated == (user != null && token != null)\<close>,
  and the actions whose \<open>SET_USER\<close> payload carries a user that is not \<open>null\<close>, as the
  type of the action demands.
\<close>

definition auth_inv :: "AuthState \<Rightarrow> bool" where
  "auth_inv s = (isAuthenticated s = (user s \<noteq> JNull \<and> token s \<noteq> None))"

fun typed_action :: "AuthAction \<Rightarrow> bool" where
  "typed_action (SET_USER u t) = (u \<noteq> JNull)"
| "typed_action _ = True"

section \<open>Durable storage, the mock backend and the provider's world\<close>

text \<open>
  \<open>localStorage\<close> is a map from keys to strings; \<open>getItem\<close> of an absent key is
  \<open>null\<close> (\<open>None\<close>).
\<close>

type_synonym Storage = "jsstring \<rightharpoonup> jsstring"

definition getItem :: "Storage \<Rightarrow> jsstring \<Rightarrow> jsstring option" where
  "getItem s k = s k"

definition setItem :: "jsstring \<Rightarrow> jsstring \<Rightarrow> Storage \<Rightarrow> Storage" where
  "setItem k v s = s(k \<mapsto> v)"

definition removeItem :: "jsstring \<Rightarrow> Storage \<Rightarrow> Storage" where
  "removeItem k s = s(k := None)"

text \<open>A thrown \<open>Error\<close>, with its message.\<close>

datatype error = Error jsstring

text \<open>
  The clock the mock backend reads: \<open>new Date().toISOString()\<close> and \<open>Date.now()\<close>
  (milliseconds, a natural number, printed in decimal when added to a string).
\<close>

record clock =
  clock_iso :: jsstring
  clock_now :: nat

fun decimal :: "nat \<Rightarrow> jsstring" where
  "decimal n =
     (if n < 10 then [0x30 + of_nat n]
      else decimal (n div 10) @ [0x30 + of_nat (n mod 10)])"

declare decimal.simps [simp del]

record SignupCredentials =
  signup_email :: jsstring
  signup_name :: jsstring
  signup_password :: jsstring

definition mockAPI_login :: "clock \<Rightarrow> LoginCredentials \<Rightarrow> error + AuthResponse" where
  "mockAPI_login clk credentials =
     (if cred_email credentials = js ''user@example.com''
         \<and> cred_password credentials = js ''password123''
      then Inr \<lparr>resp_user =
                  \<lparr>user_id = js ''1'', user_email = cred_email credentials,
                   user_name = js ''John Doe'', user_avatar = None,
                   user_provider = email_provider, user_createdAt = clock_iso clk\<rparr>,
                resp_token = js ''mock-jwt-token-'' @ decimal (clock_now clk)\<rparr>
      else Inl (Error (js ''Invalid credentials'')))"

definition mockAPI_signup :: "clock \<Rightarrow> SignupCredentials \<Rightarrow> error + AuthResponse" where
  "mockAPI_signup clk credentials =
     Inr \<lparr>resp_user =
            \<lparr>user_id = decimal (clock_now clk), user_email = signup_email credentials,
             user_name = signup_name credentials, user_avatar = None,
             user_provider = email_provider, user_createdAt = clock_iso clk\<rparr>,
          resp_token = js ''mock-jwt-token-'' @ decimal (clock_now clk)\<rparr>"

definition mockAPI_googleLogin :: "clock \<Rightarrow> error + AuthResponse" where
  "mockAPI_googleLogin clk =
     Inr \<lparr>resp_user =
            \<lparr>user_id = js ''google-'' @ decimal (clock_now clk),
             user_email = js ''user@gmail.com'', user_name = js ''Google User'',
             user_avatar = Some (js ''https://images.pexels.com/photos/220453/pexels-photo-220453.jpeg?auto=compress&cs=tinysrgb&w=150&h=150&dpr=1''),
             user_provider = google_provider, user_createdAt = clock_iso clk\<rparr>,
          resp_token = js ''mock-google-jwt-token-'' @ decimal (clock_now clk)\<rparr>"

text \<open>
  What the provider's operations read and change: the reducer's state, the durable
  storage, and the calls made to the authentication backend so far (latest last).
  An operation returns normally (\<open>Inr ()\<close>) or throws (\<open>Inl\<close>), and leaves a world.
  Each operation is taken as one step: nothing else runs while it awaits the backend.
\<close>

datatype api_call =
    LoginCall LoginCredentials
  | SignupCall SignupCredentials
  | GoogleLoginCall

record world =
  state :: AuthState
  localStorage :: Storage
  backend :: "api_call list"

definition dispatch :: "AuthAction \<Rightarrow> world \<Rightarrow> world" where
  "dispatch a w = w\<lparr>state := authReducer (state w) a\<rparr>"

definition call_backend :: "api_call \<Rightarrow> world \<Rightarrow> world" where
  "call_backend c w = w\<lparr>backend := backend w @ [c]\<rparr>"

text \<open>
  \<open>login\<close>, \<open>signup\<close> and \<open>loginWithGoogle\<close>: \<open>SET_LOADING true\<close>, the backend call,
  and inside the \<open>try\<close>, on a response, both keys written and \<open>SET_USER\<close> dispatched;
  in the \<open>catch\<close>, \<open>SET_LOADING false\<close> dispatched and the error thrown again.
\<close>

definition login :: "clock \<Rightarrow> LoginCredentials \<Rightarrow> world \<Rightarrow> (error + unit) \<times> world" where
  "login clk credentials w =
     (let w0 = call_backend (LoginCall credentials) (dispatch (SET_LOADING True) w)
      in case mockAPI_login clk credentials of
           Inr response \<Rightarrow>
             (let w1 = w0\<lparr>localStorage :=
                           setItem (js ''auth_token'') (resp_token response) (localStorage w0)\<rparr>;
                  w2 = w1\<lparr>localStorage :=
                           setItem (js ''user_data'') (JSON_stringify_User (resp_user response))
                             (localStorage w1)\<rparr>
              in (Inr (),
                  dispatch (SET_USER (User_value (resp_user response)) (resp_token response)) w2))
         | Inl err \<Rightarrow> (Inl err, dispatch (SET_LOADING False) w0))"

definition signup :: "clock \<Rightarrow> SignupCredentials \<Rightarrow> world \<Rightarrow> (error + unit) \<times> world" where
  "signup clk credentials w =
     (let w0 = call_backend (SignupCall credentials) (dispatch (SET_LOADING True) w)
      in case mockAPI_signup clk credentials of
           Inr response \<Rightarrow>
             (let w1 = w0\<lparr>localStorage :=
                           setItem (js ''auth_token'') (resp_token response) (localStorage w0)\<rparr>;
                  w2 = w1\<lparr>localStorage :=
                           setItem (js ''user_data'') (JSON_stringify_User (resp_user response))
                             (localStorage w1)\<rparr>
              in (Inr (),
                  dispatch (SET_USER (User_value (resp_user response)) (resp_token response)) w2))
         | Inl err \<Rightarrow> (Inl err, dispatch (SET_LOADING False) w0))"

definition loginWithGoogle :: "clock \<Rightarrow> world \<Rightarrow> (error + unit) \<times> world" where
  "loginWithGoogle clk w =
     (let w0 = call_backend GoogleLoginCall (dispatch (SET_LOADING True) w)
      in case mockAPI_googleLogin clk of
           Inr response \<Rightarrow>
             (let w1 = w0\<lparr>localStorage :=
                           setItem (js ''auth_token'') (resp_token response) (localStorage w0)\<rparr>;
                  w2 = w1\<lparr>localStorage :=
                           setItem (js ''user_data'') (JSON_stringify_User (resp_user response))
                             (localStorage w1)\<rparr>
              in (Inr (),
                  dispatch (SET_USER (User_value (resp_user response)) (resp_token response)) w2))
         | Inl err \<Rightarrow> (Inl err, dispatch (SET_LOADING False) w0))"

definition logout :: "world \<Rightarrow> world" where
  "logout w =
     (let w1 = w\<lparr>localStorage := removeItem (js ''auth_token'') (localStorage w)\<rparr>;
          w2 = w1\<lparr>localStorage := removeItem (js ''user_data'') (localStorage w1)\<rparr>
      in dispatch CLEAR_USER w2)"

text \<open>
  The effect that runs once when the provider mounts. The \<open>catch\<close> swallows the
  error of \<open>JSON.parse\<close>, so the effect always returns normally.
\<close>

definition restore :: "world \<Rightarrow> (error + unit) \<times> world" where
  "restore w =
     (let token = getItem (localStorage w) (js ''auth_token'');
          userData = getItem (localStorage w) (js ''user_data'');
          w1 = (case (token, userData) of
                  (Some t, Some d) \<Rightarrow>
                    if truthy token \<and> truthy userData then
                      (case JSON_parse d of
                         Some parsed \<Rightarrow> dispatch (SET_USER parsed t) w
                       | None \<Rightarrow>
                           (let w' = w\<lparr>localStorage :=
                                         removeItem (js ''auth_token'') (localStorage w)\<rparr>
                            in w'\<lparr>localStorage :=
                                    removeItem (js ''user_data'') (localStorage w')\<rparr>))
                    else w
                | _ \<Rightarrow> w)
      in (Inr (), dispatch (SET_LOADING False) w1))"

text \<open>Startup: the reducer starts in \<open>initialState\<close>, then the effect runs.\<close>

definition AuthProvider_mount :: "Storage \<Rightarrow> (error + unit) \<times> world" where
  "AuthProvider_mount storage =
     restore \<lparr>state = initialState, localStorage = storage, backend = []\<rparr>"

text \<open>
  The context: \<open>undefined\<close> (\<open>None\<close>) outside a provider, and inside one the value
  the provider passes down, the state's fields with the four operations.
\<close>

record AuthContextType = AuthState +
  ctx_login :: "clock \<Rightarrow> LoginCredentials \<Rightarrow> world \<Rightarrow> (error + unit) \<times> world"
  ctx_signup :: "clock \<Rightarrow> SignupCredentials \<Rightarrow> world \<Rightarrow> (error + unit) \<times> world"
  ctx_loginWithGoogle :: "clock \<Rightarrow> world \<Rightarrow> (error + unit) \<times> world"
  ctx_logout :: "world \<Rightarrow> world"

definition AuthProvider_value :: "AuthState \<Rightarrow> AuthContextType" where
  "AuthProvider_value s =
     \<lparr>user = user s, token = token s, isLoading = isLoading s,
      isAuthenticated = isAuthenticated s,
      ctx_login = login, ctx_signup = signup,
      ctx_loginWithGoogle = loginWithGoogle, ctx_logout = logout\<rparr>"

definition useAuth :: "AuthContextType option \<Rightarrow> error + AuthContextType" where
  "useAuth context =
     (case context of
        None \<Rightarrow> Inl (Error (js ''useAuth must be used within an AuthProvider''))
      | Some c \<Rightarrow> Inr c)"

section \<open>Strings: white space, trimming, character classes, \<open>parseInt\<close>\<close>

text \<open>
  The white space of ECMA-262 (\<open>WhiteSpace\<close> and \<open>LineTerminator\<close>): what
  \<open>String.prototype.trim\<close> strips, what \<open>parseInt\<close> skips, and the class \<open>\s\<close>.
\<close>

definition isWhiteSpace :: "jschar \<Rightarrow> bool" where
  "isWhiteSpace c =
     (c = 0x09 \<or> c = 0x0A \<or> c = 0x0B \<or> c = 0x0C \<or> c = 0x0D \<or> c = 0x20 \<or> c = 0xA0
      \<or> c = 0x1680 \<or> (0x2000 \<le> c \<and> c \<le> 0x200A) \<or> c = 0x2028 \<or> c = 0x2029
      \<or> c = 0x202F \<or> c = 0x205F \<or> c = 0x3000 \<or> c = 0xFEFF)"

definition trim :: "jsstring \<Rightarrow> jsstring" where
  "trim s = rev (dropWhile isWhiteSpace (rev (dropWhile isWhiteSpace s)))"

text \<open>The class \<open>[a-zA-Z\s\-']\<close> of the name pattern, and \<open>[^\s@]\<close> of the email pattern.\<close>

definition isNameChar :: "jschar \<Rightarrow> bool" where
  "isNameChar c =
     ((0x61 \<le> c \<and> c \<le> 0x7A) \<or> (0x41 \<le> c \<and> c \<le> 0x5A) \<or> isWhiteSpace c
      \<or> c = 0x2D \<or> c = 0x27)"

definition notSpaceOrAt :: "jschar \<Rightarrow> bool" where
  "notSpaceOrAt c = (\<not> (isWhiteSpace c \<or> c = 0x40))"

text \<open>
  The patterns of the source are sequences of character classes, each taken once
  or one or more times, between \<open>^\<close> and \<open>$\<close>. \<open>regex_test\<close> is \<open>RegExp.prototype.test\<close>
  for such a pattern: some way of cutting the whole string matches the sequence.
\<close>

datatype regex_item = One "jschar \<Rightarrow> bool" | OneOrMore "jschar \<Rightarrow> bool"

fun regex_test :: "regex_item list \<Rightarrow> jsstring \<Rightarrow> bool" where
  "regex_test [] s = (s = [])"
| "regex_test (One p # items) [] = False"
| "regex_test (One p # items) (c # cs) = (p c \<and> regex_test items cs)"
| "regex_test (OneOrMore p # items) [] = False"
| "regex_test (OneOrMore p # items) (c # cs) =
     (p c \<and> (regex_test items cs \<or> regex_test (OneOrMore p # items) cs))"

text \<open>\<open>s.replace(/[...]/g, '')\<close> for a one-character class: every match is deleted.\<close>

definition replace_all_empty :: "(jschar \<Rightarrow> bool) \<Rightarrow> jsstring \<Rightarrow> jsstring" where
  "replace_all_empty cls s = filter (\<lambda>c. \<not> cls c) s"

text \<open>
  \<open>parseInt(string)\<close> with no radix (ECMA-262, 19.2.5): leading white space is
  skipped, a sign is read, \<open>0x\<close> or \<open>0X\<close> selects radix 16 (otherwise 10), and the
  longest run of digits of that radix is the number; no digit at all gives \<open>NaN\<close>
  (\<open>None\<close>). The result is the exact integer: rounding to a double changes neither
  whether it is \<open>NaN\<close> nor its sign, which is all the source asks of it.
\<close>

definition digitOf :: "jschar \<Rightarrow> nat option" where
  "digitOf c =
     (if 0x30 \<le> c \<and> c \<le> 0x39 then Some (unat (c - 0x30))
      else if 0x61 \<le> c \<and> c \<le> 0x7A then Some (unat (c - 0x61) + 10)
      else if 0x41 \<le> c \<and> c \<le> 0x5A then Some (unat (c - 0x41) + 10)
      else None)"

definition isRadixDigit :: "nat \<Rightarrow> jschar \<Rightarrow> bool" where
  "isRadixDigit R c = (case digitOf c of None \<Rightarrow> False | Some d \<Rightarrow> d < R)"

definition radixValue :: "nat \<Rightarrow> jsstring \<Rightarrow> nat" where
  "radixValue R Z = foldl (\<lambda>acc c. acc * R + (case digitOf c of None \<Rightarrow> 0 | Some d \<Rightarrow> d)) 0 Z"

fun parse_sign :: "jsstring \<Rightarrow> int \<times> jsstring" where
  "parse_sign [] = (1, [])"
| "parse_sign (c # cs) =
     (if c = 0x2D then (- 1, cs) else if c = 0x2B then (1, cs) else (1, c # cs))"

fun parse_radix :: "jsstring \<Rightarrow> nat \<times> jsstring" where
  "parse_radix (a # b # rest) =
     (if a = 0x30 \<and> (b = 0x78 \<or> b = 0x58) then (16, rest) else (10, a # b # rest))"
| "parse_radix s = (10, s)"

definition parseInt :: "jsstring \<Rightarrow> int option" where
  "parseInt string =
     (case parse_sign (dropWhile isWhiteSpace string) of
        (sign, S) \<Rightarrow>
          (case parse_radix S of
             (R, S') \<Rightarrow>
               (let Z = takeWhile (isRadixDigit R) S'
                in if Z = [] then None else Some (sign * int (radixValue R Z)))))"

definition isNaN :: "int option \<Rightarrow> bool" where
  "isNaN v = (v = None)"

text \<open>\<open>v < 0\<close> for a number \<open>v\<close>: false for \<open>NaN\<close>.\<close>

definition lt_zero :: "int option \<Rightarrow> bool" where
  "lt_zero v = (case v of None \<Rightarrow> False | Some n \<Rightarrow> n < 0)"

section \<open>The application form\<close>

record FormData =
  fullName :: jsstring
  email :: jsstring
  phone :: jsstring
  experience :: jsstring
  employmentStatus :: jsstring
  currentCompany :: jsstring
  skills :: "jsstring list"
  declaration' :: bool

text \<open>
  The error object: its properties in insertion order. A property that is absent
  and one set to \<open>undefined\<close> read the same everywhere in the component, and are both
  modelled as absent.
\<close>

type_synonym FormErrors = "(jsstring \<times> jsstring) list"

definition skillOptions :: "jsstring list" where
  "skillOptions = [js ''React'', js ''Python'', js ''Java'', js ''SQL'', js ''AWS'']"

definition emailRegex :: "regex_item list" where
  "emailRegex =
     [OneOrMore notSpaceOrAt, One (\<lambda>c. c = 0x40), OneOrMore notSpaceOrAt,
      One (\<lambda>c. c = 0x2E), OneOrMore notSpaceOrAt]"

definition validateEmail :: "jsstring \<Rightarrow> bool" where
  "validateEmail e = regex_test emailRegex e"

definition phoneRegex :: "regex_item list" where
  "phoneRegex = replicate 10 (One isDigit)"

definition validatePhone :: "jsstring \<Rightarrow> bool" where
  "validatePhone p = regex_test phoneRegex p"

definition nameRegex :: "regex_item list" where
  "nameRegex = [OneOrMore isNameChar]"

definition validateFullName :: "jsstring \<Rightarrow> bool" where
  "validateFullName n = (regex_test nameRegex (trim n) \<and> length (trim n) \<ge> 2)"

text \<open>
  \<open>validateForm\<close>, one definition for each \<open>if\<close> statement of the source, in the
  source's order; each takes the draft and the errors collected so far.
\<close>

definition check_fullName :: "FormData \<Rightarrow> FormErrors \<Rightarrow> FormErrors" where
  "check_fullName formData newErrors =
     (if trim (fullName formData) = [] then
        AList.update (js ''fullName'') (js ''Full name is required'') newErrors
      else if \<not> validateFullName (fullName formData) then
        AList.update (js ''fullName'')
          (js ''Full name must contain only letters, spaces, hyphens, and apostrophes'') newErrors
      else newErrors)"

definition check_email :: "FormData \<Rightarrow> FormErrors \<Rightarrow> FormErrors" where
  "check_email formData newErrors =
     (if trim (email formData) = [] then
        AList.update (js ''email'') (js ''Email is required'') newErrors
      else if \<not> validateEmail (email formData) then
        AList.update (js ''email'') (js ''Please enter a valid email address'') newErrors
      else newErrors)"

definition check_phone :: "FormData \<Rightarrow> FormErrors \<Rightarrow> FormErrors" where
  "check_phone formData newErrors =
     (if trim (phone formData) = [] then
        AList.update (js ''phone'') (js ''Phone number is required'') newErrors
      else if \<not> validatePhone (phone formData) then
        AList.update (js ''phone'') (js ''Phone number must be exactly 10 digits'') newErrors
      else newErrors)"

definition check_experience :: "FormData \<Rightarrow> FormErrors \<Rightarrow> FormErrors" where
  "check_experience formData newErrors =
     (if trim (experience formData) = [] then
        AList.update (js ''experience'') (js ''Experience is required'') newErrors
      else if lt_zero (parseInt (experience formData)) \<or> isNaN (parseInt (experience formData)) then
        AList.update (js ''experience'') (js ''Experience must be 0 or greater'') newErrors
      else newErrors)"

definition check_employmentStatus :: "FormData \<Rightarrow> FormErrors \<Rightarrow> FormErrors" where
  "check_employmentStatus formData newErrors =
     (if employmentStatus formData = [] then
        AList.update (js ''experience'') (js ''Please select your employment status'') newErrors
      else newErrors)"

definition check_currentCompany :: "FormData \<Rightarrow> FormErrors \<Rightarrow> FormErrors" where
  "check_currentCompany formData newErrors =
     (if employmentStatus formData = js ''yes'' \<and> trim (currentCompany formData) = [] then
        AList.update (js ''currentCompany'') (js ''Current company name is required'') newErrors
      else newErrors)"

definition check_skills :: "FormData \<Rightarrow> FormErrors \<Rightarrow> FormErrors" where
  "check_skills formData newErrors =
     (if length (skills formData) = 0 then
        AList.update (js ''skills'') (js ''Please select at least one skill'') newErrors
      else newErrors)"

definition check_declaration :: "FormData \<Rightarrow> FormErrors \<Rightarrow> FormErrors" where
  "check_declaration formData newErrors =
     (if \<not> declaration' formData then
        AList.update (js ''declaration'') (js ''You must confirm the information is true'')
          newErrors
      else newErrors)"

text \<open>The errors that \<open>validateForm\<close> passes to \<open>setErrors\<close>, and the boolean it returns.\<close>

definition validateForm :: "FormData \<Rightarrow> FormErrors \<times> bool" where
  "validateForm formData =
     (let newErrors =
        check_declaration formData
          (check_skills formData
            (check_currentCompany formData
              (check_employmentStatus formData
                (check_experience formData
                  (check_phone formData
                    (check_email formData
                      (check_fullName formData [])))))))
      in (newErrors, length newErrors = 0))"

text \<open>The component's state, and the target of a change event.\<close>

record FormState =
  formData :: FormData
  errors :: FormErrors
  isSubmitting :: bool
  isSubmitted :: bool

record ChangeEvent =
  target_name :: jsstring
  target_value :: jsstring
  target_type :: jsstring
  target_checked :: bool

text \<open>
  \<open>{...prev, [name]: v}\<close>, a write to the property called \<open>name\<close>. The form renders no
  input whose name and kind of value disagree with the draft's fields; a write under
  any other name adds a property that nothing reads, and leaves the record as it is.
\<close>

definition write_string :: "jsstring \<Rightarrow> jsstring \<Rightarrow> FormData \<Rightarrow> FormData" where
  "write_string n v prev =
     (if n = js ''fullName'' then prev\<lparr>fullName := v\<rparr>
      else if n = js ''email'' then prev\<lparr>email := v\<rparr>
      else if n = js ''phone'' then prev\<lparr>phone := v\<rparr>
      else if n = js ''experience'' then prev\<lparr>experience := v\<rparr>
      else if n = js ''employmentStatus'' then prev\<lparr>employmentStatus := v\<rparr>
      else if n = js ''currentCompany'' then prev\<lparr>currentCompany := v\<rparr>
      else prev)"

definition write_bool :: "jsstring \<Rightarrow> bool \<Rightarrow> FormData \<Rightarrow> FormData" where
  "write_bool n b prev = (if n = js ''declaration'' then prev\<lparr>declaration' := b\<rparr> else prev)"

definition handleInputChange :: "ChangeEvent \<Rightarrow> FormState \<Rightarrow> FormState" where
  "handleInputChange e st =
     (let name = target_name e; val = target_value e;
          type = target_type e; checked = target_checked e;
          prev = formData st;
          formData' =
            (if type = js ''checkbox'' \<and> name = js ''skills'' then
               prev\<lparr>skills :=
                 (if val \<in> set (skills prev) then filter (\<lambda>s. s \<noteq> val) (skills prev)
                  else skills prev @ [val])\<rparr>
             else if type = js ''checkbox'' then write_bool name checked prev
             else if name = js ''fullName'' then
               write_string name (replace_all_empty (\<lambda>c. \<not> isNameChar c) val) prev
             else if name = js ''phone'' then
               write_string name (take 10 (replace_all_empty (\<lambda>c. \<not> isDigit c) val)) prev
             else if name = js ''experience'' then
               write_string name (replace_all_empty (\<lambda>c. \<not> isDigit c) val) prev
             else write_string name val prev);
          errors' =
            (if truthy (map_of (errors st) name) then AList.delete name (errors st)
             else errors st)
      in st\<lparr>formData := formData', errors := errors'\<rparr>)"

text \<open>
  \<open>handleSubmit\<close>, taken as one step (the simulated delay and the console log are
  left out): the errors are stored, and a valid draft is marked as submitted.
\<close>

definition handleSubmit :: "FormState \<Rightarrow> FormState" where
  "handleSubmit st =
     (case validateForm (formData st) of
        (newErrors, valid) \<Rightarrow>
          st\<lparr>errors := newErrors,
             isSubmitted := (if valid then True else isSubmitted st),
             isSubmitting := False\<rparr>)"

text \<open>The draft at mount and after a reset; \<open>prefill\<close> is \<open>user?.email || ''\<close>.\<close>

definition initialFormData :: "jsstring \<Rightarrow> FormData" where
  "initialFormData prefill =
     \<lparr>fullName = [], email = prefill, phone = [], experience = [], employmentStatus = [],
      currentCompany = [], skills = [], declaration' = False\<rparr>"

definition initialForm :: "jsstring \<Rightarrow> FormState" where
  "initialForm prefill =
     \<lparr>formData = initialFormData prefill, errors = [], isSubmitting = False,
      isSubmitted = False\<rparr>"

text \<open>The button \<open>Submit Another Application\<close> of the success screen.\<close>

definition submitAnother :: "jsstring \<Rightarrow> FormState \<Rightarrow> FormState" where
  "submitAnother prefill st =
     st\<lparr>isSubmitted := False, formData := initialFormData prefill, errors := []\<rparr>"

text \<open>
  The change events the rendered form can deliver in a state: the success screen
  has no inputs, and the company input is there only while the status is \<open>yes\<close>.
\<close>

definition rendered :: "FormState \<Rightarrow> ChangeEvent \<Rightarrow> bool" where
  "rendered st e =
     (\<not> isSubmitted st \<and>
      ((target_name e = js ''fullName'' \<and> target_type e = js ''text'')
       \<or> (target_name e = js ''email'' \<and> target_type e = js ''email'')
       \<or> (target_name e = js ''phone'' \<and> target_type e = js ''tel'')
       \<or> (target_name e = js ''experience'' \<and> target_type e = js ''text'')
       \<or> (target_name e = js ''employmentStatus'' \<and> target_type e = js ''radio''
           \<and> (target_value e = js ''yes'' \<or> target_value e = js ''no''))
       \<or> (target_name e = js ''currentCompany'' \<and> target_type e = js ''text''
           \<and> employmentStatus (formData st) = js ''yes'')
       \<or> (target_name e = js ''skills'' \<and> target_type e = js ''checkbox''
           \<and> target_value e \<in> set skillOptions)
       \<or> (target_name e = js ''declaration'' \<and> target_type e = js ''checkbox'')))"

text \<open>The states of the form: from the mounted form, by change events, submits and resets.\<close>

inductive form_state :: "jsstring \<Rightarrow> FormState \<Rightarrow> bool" for prefill :: jsstring where
  mounted: "form_state prefill (initialForm prefill)"
| changed: "form_state prefill st \<Longrightarrow> rendered st e \<Longrightarrow> form_state prefill (handleInputChange e st)"
| submitted: "form_state prefill st \<Longrightarrow> \<not> isSubmitted st \<Longrightarrow> form_state prefill (handleSubmit st)"
| reset: "form_state prefill st \<Longrightarrow> isSubmitted st \<Longrightarrow> form_state prefill (submitAnother prefill st)"


text \<open>No message of an error map is the empty string (which would read as no error).\<close>

definition msgs_nonempty :: "FormErrors \<Rightarrow> bool" where
  "msgs_nonempty errs = (\<forall>k m. map_of errs k = Some m \<longrightarrow> m \<noteq> [])"

section \<open>Properties of the session store\<close>

lemma js_eq_Nil [simp]: "(js s = []) = (s = [])"
  by (simp add: js_def)

lemma key_neq: "js ''auth_token'' \<noteq> js ''user_data''"
  by (simp add: js_def)

lemma JSON_parse_empty: "JSON_parse [] = None"
  by (simp add: JSON_parse_def)

lemma JSON_parse_null: "JSON_parse (js ''null'') = Some JNull"
  by (simp add: JSON_parse_def js_def isJSONWhitespace_def isDigit_def)

lemma JSON_parse_user_record:
  \<open>JSON_parse (js ''{"id":"1","email":"user@example.com","name":"John Doe","provider":"email","createdAt":"2024-01-01T00:00:00.000Z"}'')
   = Some (JObject
       [(js ''id'', JString (js ''1'')),
        (js ''email'', JString (js ''user@example.com'')),
        (js ''name'', JString (js ''John Doe'')),
        (js ''provider'', JString (js ''email'')),
        (js ''createdAt'', JString (js ''2024-01-01T00:00:00.000Z''))])\<close>
  by (simp add: JSON_parse_def js_def isJSONWhitespace_def isDigit_def)

lemma JSON_parse_garbage: "JSON_parse (js ''{oops'') = None"
  by (simp add: JSON_parse_def js_def isJSONWhitespace_def isDigit_def)

text \<open>
  The reducer keeps the invariant under every action whose payload is typed; so do
  \<open>login\<close>, \<open>signup\<close>, \<open>loginWithGoogle\<close> and \<open>logout\<close>, which dispatch only such
  actions, and so does the restore unless the stored user data parses to \<open>null\<close>.
\<close>

lemma initialState_inv: "auth_inv initialState"
  by (simp add: auth_inv_def initialState_def)

lemma authReducer_inv: "auth_inv s \<Longrightarrow> typed_action a \<Longrightarrow> auth_inv (authReducer s a)"
  by (cases a) (simp_all add: auth_inv_def)

lemma operations_inv:
  assumes "auth_inv (state w)"
  shows "auth_inv (state (snd (login clk credentials w)))"
    and "auth_inv (state (snd (signup clk credentials' w)))"
    and "auth_inv (state (snd (loginWithGoogle clk w)))"
    and "auth_inv (state (logout w))"
  using assms
  by (simp_all add: login_def signup_def loginWithGoogle_def logout_def dispatch_def
      call_backend_def Let_def auth_inv_def User_value_def split: sum.splits)

lemma restore_inv:
  assumes "auth_inv (state w)"
    and "\<And>d. getItem (localStorage w) (js ''user_data'') = Some d \<Longrightarrow> JSON_parse d \<noteq> Some JNull"
  shows "auth_inv (state (snd (restore w)))"
  using assms
  by (auto simp: restore_def dispatch_def Let_def auth_inv_def
      split: option.splits)

text \<open>
  Claim C1 says that \<open>isAuthenticated\<close> is true exactly when \<open>user\<close> and \<open>token\<close> are
  both non-null in every reachable state, the state after the startup restore from
  arbitrary stored strings included. The restore breaks it: with a token \<open>t\<close> and the
  user data \<open>null\<close> in storage (valid JSON, whose value is \<open>null\<close>), the provider ends
  its startup with \<open>isAuthenticated = true\<close> and \<open>user = null\<close>.
\<close>

theorem restore_null_user:
  "JSON_parse (js ''null'') = Some JNull
   \<and> state (snd (AuthProvider_mount
        [js ''auth_token'' \<mapsto> js ''t'', js ''user_data'' \<mapsto> js ''null'']))
     = \<lparr>user = JNull, token = Some (js ''t''), isLoading = False, isAuthenticated = True\<rparr>
   \<and> \<not> auth_inv (state (snd (AuthProvider_mount
        [js ''auth_token'' \<mapsto> js ''t'', js ''user_data'' \<mapsto> js ''null''])))"
  by (simp add: AuthProvider_mount_def restore_def getItem_def truthy_def dispatch_def
      initialState_def JSON_parse_null key_neq Let_def auth_inv_def)

text \<open>
  A successful login writes the session that the next startup restores: the stored
  user data is the text of the user object.
\<close>

lemma decimal_clock: "decimal 1704067200000 = js ''1704067200000''"
  by (simp add: decimal.simps js_def)

lemma login_writes_session:
  \<open>login \<lparr>clock_iso = js ''2024-01-01T00:00:00.000Z'', clock_now = 1704067200000\<rparr>
     \<lparr>cred_email = js ''user@example.com'', cred_password = js ''password123''\<rparr>
     \<lparr>state = initialState, localStorage = Map.empty, backend = []\<rparr>
   = (Inr (),
      \<lparr>state =
         \<lparr>user = JObject
            [(js ''id'', JString (js ''1'')),
             (js ''email'', JString (js ''user@example.com'')),
             (js ''name'', JString (js ''John Doe'')),
             (js ''provider'', JString (js ''email'')),
             (js ''createdAt'', JString (js ''2024-01-01T00:00:00.000Z''))],
          token = Some (js ''mock-jwt-token-1704067200000''),
          isLoading = False, isAuthenticated = True\<rparr>,
       localStorage =
         [js ''auth_token'' \<mapsto> js ''mock-jwt-token-1704067200000'',
          js ''user_data'' \<mapsto> js ''{"id":"1","email":"user@example.com","name":"John Doe","provider":"email","createdAt":"2024-01-01T00:00:00.000Z"}''],
       backend = [LoginCall \<lparr>cred_email = js ''user@example.com'',
                            cred_password = js ''password123''\<rparr>]\<rparr>)\<close>
proof -
  have q: \<open>JSON_stringify_User
      \<lparr>user_id = js ''1'', user_email = js ''user@example.com'', user_name = js ''John Doe'',
       user_avatar = None, user_provider = email_provider,
       user_createdAt = js ''2024-01-01T00:00:00.000Z''\<rparr>
     = js ''{"id":"1","email":"user@example.com","name":"John Doe","provider":"email","createdAt":"2024-01-01T00:00:00.000Z"}''\<close>
    by (simp add: JSON_stringify_User_def member_text_def QuoteJSONString_def
        provider_string_def quoteUnit_def isLeadingSurrogate_def isTrailingSurrogate_def js_def)
  have t: "js ''mock-jwt-token-'' @ decimal 1704067200000 = js ''mock-jwt-token-1704067200000''"
    by (simp add: decimal_clock js_def)
  show ?thesis
    by (simp add: login_def mockAPI_login_def dispatch_def call_backend_def Let_def
        initialState_def setItem_def q t User_value_def provider_string_def)
qed

text \<open>
  Claim C3, as stated: whenever storage holds a token string and a user record that
  parses, startup ends authenticated. It fails for the empty token string, which the
  guard \<open>token && userData\<close> takes as absent: the user record below parses, and the
  store ends unauthenticated.
\<close>

theorem restore_empty_token_counterexample:
  \<open>JSON_parse (js ''{"id":"1","email":"user@example.com","name":"John Doe","provider":"email","createdAt":"2024-01-01T00:00:00.000Z"}'') \<noteq> None
   \<and> state (snd (AuthProvider_mount
        [js ''auth_token'' \<mapsto> [],
         js ''user_data'' \<mapsto> js ''{"id":"1","email":"user@example.com","name":"John Doe","provider":"email","createdAt":"2024-01-01T00:00:00.000Z"}'']))
     = \<lparr>user = JNull, token = None, isLoading = False, isAuthenticated = False\<rparr>\<close>
  by (simp add: JSON_parse_user_record AuthProvider_mount_def restore_def getItem_def
      truthy_def dispatch_def initialState_def key_neq Let_def)

text \<open>
  Claim C3, amended: for every startup in which storage holds a non-empty token
  string under \<open>auth_token\<close> and, under \<open>user_data\<close>, a string that \<open>JSON.parse\<close> accepts,
  the restore returns normally and ends with \<open>isAuthenticated = true\<close>,
  \<open>isLoading = false\<close>, \<open>token\<close> the stored token and \<open>user\<close> the value the stored
  string parses to; storage is left as it was and no backend call is made.
\<close>

theorem restore_valid_session:
  assumes "getItem storage (js ''auth_token'') = Some t" and "t \<noteq> []"
    and "getItem storage (js ''user_data'') = Some d" and "JSON_parse d = Some u"
  shows "AuthProvider_mount storage =
    (Inr (), \<lparr>state = \<lparr>user = u, token = Some t, isLoading = False, isAuthenticated = True\<rparr>,
              localStorage = storage, backend = []\<rparr>)"
proof -
  from assms(4) have "d \<noteq> []"
    using JSON_parse_empty by auto
  with assms show ?thesis
    by (simp add: AuthProvider_mount_def restore_def getItem_def truthy_def dispatch_def
        initialState_def Let_def)
qed

theorem restore_valid_session_witness:
  \<open>AuthProvider_mount
     [js ''auth_token'' \<mapsto> js ''mock-jwt-token-1704067200000'',
      js ''user_data'' \<mapsto> js ''{"id":"1","email":"user@example.com","name":"John Doe","provider":"email","createdAt":"2024-01-01T00:00:00.000Z"}'']
   = (Inr (),
      \<lparr>state =
         \<lparr>user = JObject
            [(js ''id'', JString (js ''1'')),
             (js ''email'', JString (js ''user@example.com'')),
             (js ''name'', JString (js ''John Doe'')),
             (js ''provider'', JString (js ''email'')),
             (js ''createdAt'', JString (js ''2024-01-01T00:00:00.000Z''))],
          token = Some (js ''mock-jwt-token-1704067200000''),
          isLoading = False, isAuthenticated = True\<rparr>,
       localStorage =
         [js ''auth_token'' \<mapsto> js ''mock-jwt-token-1704067200000'',
          js ''user_data'' \<mapsto> js ''{"id":"1","email":"user@example.com","name":"John Doe","provider":"email","createdAt":"2024-01-01T00:00:00.000Z"}''],
       backend = []\<rparr>)\<close>
  by (rule restore_valid_session [OF _ _ _ JSON_parse_user_record])
     (simp_all add: getItem_def key_neq)

text \<open>
  Claim C4, as stated: whenever storage holds a token and a user record that is not
  valid JSON, startup ends unauthenticated with both keys absent. It fails for the
  empty user-data string: it is not valid JSON, the guard \<open>token && userData\<close> takes it
  as absent, nothing is parsed and nothing is purged, so both keys are still there.
\<close>

theorem restore_empty_user_data_counterexample:
  "JSON_parse [] = None
   \<and> getItem (localStorage (snd (AuthProvider_mount
        [js ''auth_token'' \<mapsto> js ''t'', js ''user_data'' \<mapsto> []]))) (js ''auth_token'')
     = Some (js ''t'')
   \<and> getItem (localStorage (snd (AuthProvider_mount
        [js ''auth_token'' \<mapsto> js ''t'', js ''user_data'' \<mapsto> []]))) (js ''user_data'')
     = Some []"
  by (simp add: JSON_parse_empty AuthProvider_mount_def restore_def getItem_def
      truthy_def dispatch_def key_neq Let_def)

text \<open>
  Claim C4, amended: for every startup in which storage holds a non-empty token
  string under \<open>auth_token\<close> and, under \<open>user_data\<close>, a non-empty string that
  \<open>JSON.parse\<close> rejects, the restore returns normally (no error reaches the user),
  ends with \<open>user = null\<close>, \<open>token = null\<close>, \<open>isAuthenticated = false\<close> and
  \<open>isLoading = false\<close>, and leaves both keys absent from storage, every other key
  as it was.
\<close>

theorem restore_corrupt_session:
  assumes "getItem storage (js ''auth_token'') = Some t" and "t \<noteq> []"
    and "getItem storage (js ''user_data'') = Some d" and "d \<noteq> []"
    and "JSON_parse d = None"
  shows "AuthProvider_mount storage =
    (Inr (), \<lparr>state = \<lparr>user = JNull, token = None, isLoading = False, isAuthenticated = False\<rparr>,
              localStorage = storage(js ''auth_token'' := None, js ''user_data'' := None),
              backend = []\<rparr>)"
  using assms
  by (simp add: AuthProvider_mount_def restore_def getItem_def truthy_def dispatch_def
      initialState_def Let_def removeItem_def)

theorem restore_corrupt_session_witness:
  "AuthProvider_mount [js ''auth_token'' \<mapsto> js ''t'', js ''user_data'' \<mapsto> js ''{oops'']
   = (Inr (), \<lparr>state = \<lparr>user = JNull, token = None, isLoading = False, isAuthenticated = False\<rparr>,
               localStorage = Map.empty, backend = []\<rparr>)
   \<and> getItem (localStorage (snd (AuthProvider_mount
         [js ''auth_token'' \<mapsto> js ''t'', js ''user_data'' \<mapsto> js ''{oops'']))) (js ''auth_token'')
       = None
   \<and> getItem (localStorage (snd (AuthProvider_mount
         [js ''auth_token'' \<mapsto> js ''t'', js ''user_data'' \<mapsto> js ''{oops'']))) (js ''user_data'')
       = None"
proof -
  let ?storage = "[js ''auth_token'' \<mapsto> js ''t'', js ''user_data'' \<mapsto> js ''{oops'']"
  have t: "getItem ?storage (js ''auth_token'') = Some (js ''t'')"
    by (simp add: getItem_def key_neq)
  have d: "getItem ?storage (js ''user_data'') = Some (js ''{oops'')"
    by (simp add: getItem_def)
  have "AuthProvider_mount ?storage =
    (Inr (), \<lparr>state = \<lparr>user = JNull, token = None, isLoading = False, isAuthenticated = False\<rparr>,
              localStorage = ?storage(js ''auth_token'' := None, js ''user_data'' := None),
              backend = []\<rparr>)"
    by (rule restore_corrupt_session [OF t _ d _ JSON_parse_garbage]) simp_all
  then show ?thesis
    by (simp add: getItem_def)
qed

text \<open>
  Claim C5. From every prior state of the session store, \<open>logout\<close> yields the
  state \<open>{user: null, token: null, isAuthenticated: false, isLoading: false}\<close>,
  removes both durable-storage keys (and touches no other key), and makes no backend
  call.
\<close>

theorem logout_resets:
  "state (logout w) = \<lparr>user = JNull, token = None, isLoading = False, isAuthenticated = False\<rparr>
   \<and> getItem (localStorage (logout w)) (js ''auth_token'') = None
   \<and> getItem (localStorage (logout w)) (js ''user_data'') = None
   \<and> localStorage (logout w) = (localStorage w)(js ''auth_token'' := None, js ''user_data'' := None)
   \<and> backend (logout w) = backend w"
  by (simp add: logout_def dispatch_def removeItem_def getItem_def Let_def)

text \<open>
  Claim C6, as stated: from every prior state, a failed backend login leaves the
  store unauthenticated. It fails when the store was authenticated before the call:
  the \<open>catch\<close> only dispatches \<open>SET_LOADING false\<close>. Here a login with the right
  credentials is followed by one with a wrong password; the backend rejects the
  second, the error is thrown, and the store is still authenticated.
\<close>

theorem login_failure_counterexample:
  "fst (login \<lparr>clock_iso = js ''2024-01-01T00:00:00.000Z'', clock_now = 1704067200000\<rparr>
          \<lparr>cred_email = js ''user@example.com'', cred_password = js ''password123''\<rparr>
          (snd (AuthProvider_mount Map.empty))) = Inr ()
   \<and> fst (login \<lparr>clock_iso = js ''2024-01-01T00:00:01.000Z'', clock_now = 1704067201000\<rparr>
          \<lparr>cred_email = js ''user@example.com'', cred_password = js ''wrong''\<rparr>
          (snd (login \<lparr>clock_iso = js ''2024-01-01T00:00:00.000Z'', clock_now = 1704067200000\<rparr>
             \<lparr>cred_email = js ''user@example.com'', cred_password = js ''password123''\<rparr>
             (snd (AuthProvider_mount Map.empty)))))
       = Inl (Error (js ''Invalid credentials''))
   \<and> isAuthenticated (state (snd
         (login \<lparr>clock_iso = js ''2024-01-01T00:00:01.000Z'', clock_now = 1704067201000\<rparr>
          \<lparr>cred_email = js ''user@example.com'', cred_password = js ''wrong''\<rparr>
          (snd (login \<lparr>clock_iso = js ''2024-01-01T00:00:00.000Z'', clock_now = 1704067200000\<rparr>
             \<lparr>cred_email = js ''user@example.com'', cred_password = js ''password123''\<rparr>
             (snd (AuthProvider_mount Map.empty)))))))"
  by (simp add: login_def mockAPI_login_def dispatch_def call_backend_def Let_def
      AuthProvider_mount_def restore_def getItem_def js_def)

text \<open>
  Claim C6, amended: for every prior state and all credentials, when the backend
  login call fails, \<open>login\<close> throws the backend's error to its caller, sets
  \<open>isLoading = false\<close>, leaves \<open>user\<close>, \<open>token\<close> and \<open>isAuthenticated\<close> as they were
  before the call (so the store is unauthenticated afterwards if it was before), and
  leaves durable storage unchanged; the one backend call is recorded.
\<close>

theorem login_failure:
  assumes "mockAPI_login clk credentials = Inl err"
  shows "login clk credentials w =
    (Inl err, w\<lparr>state := (state w)\<lparr>isLoading := False\<rparr>,
                backend := backend w @ [LoginCall credentials]\<rparr>)"
  using assms by (simp add: login_def dispatch_def call_backend_def Let_def)

theorem login_failure_witness:
  "mockAPI_login \<lparr>clock_iso = js ''2024-01-01T00:00:00.000Z'', clock_now = 1704067200000\<rparr>
     \<lparr>cred_email = js ''user@example.com'', cred_password = js ''wrong''\<rparr>
     = Inl (Error (js ''Invalid credentials''))
   \<and> login \<lparr>clock_iso = js ''2024-01-01T00:00:00.000Z'', clock_now = 1704067200000\<rparr>
       \<lparr>cred_email = js ''user@example.com'', cred_password = js ''wrong''\<rparr>
       \<lparr>state = initialState, localStorage = Map.empty, backend = []\<rparr>
     = (Inl (Error (js ''Invalid credentials'')),
        \<lparr>state = \<lparr>user = JNull, token = None, isLoading = False, isAuthenticated = False\<rparr>,
         localStorage = Map.empty,
         backend = [LoginCall \<lparr>cred_email = js ''user@example.com'',
                              cred_password = js ''wrong''\<rparr>]\<rparr>)"
proof -
  have rejected:
    "mockAPI_login \<lparr>clock_iso = js ''2024-01-01T00:00:00.000Z'', clock_now = 1704067200000\<rparr>
       \<lparr>cred_email = js ''user@example.com'', cred_password = js ''wrong''\<rparr>
     = Inl (Error (js ''Invalid credentials''))"
    by (simp add: mockAPI_login_def js_def)
  show ?thesis
    using rejected login_failure [OF rejected,
        of "\<lparr>state = initialState, localStorage = Map.empty, backend = []\<rparr>"]
    by (simp add: initialState_def)
qed

text \<open>
  Claim C9. Outside a provider the context is \<open>undefined\<close> and the session accessor
  \<open>useAuth\<close> throws an error instead of returning a default state; inside a provider
  it returns the provider's value, which carries the current state's fields and the
  operations.
\<close>

theorem useAuth_scope:
  "useAuth None = Inl (Error (js ''useAuth must be used within an AuthProvider''))
   \<and> useAuth (Some c) = Inr c
   \<and> useAuth (Some (AuthProvider_value s)) = Inr (AuthProvider_value s)
   \<and> AuthState.truncate (AuthProvider_value s) = s
   \<and> ctx_login (AuthProvider_value s) = login
   \<and> ctx_logout (AuthProvider_value s) = logout"
  by (simp add: useAuth_def AuthProvider_value_def AuthState.truncate_def)

section \<open>Properties of the application form\<close>

lemma unat_of_char: "unat (of_char c :: 16 word) = of_char c"
proof -
  have "(of_char c :: nat) mod 256 = of_char c"
    by simp
  then have "(of_char c :: nat) < 256"
    by (metis mod_less_divisor zero_less_numeral)
  then have lt: "(of_char c :: nat) < 65536"
    by linarith
  have "unat (of_nat (of_char c) :: 16 word) = of_char c mod 65536"
    by (simp add: unat_of_nat)
  with lt have "unat (of_nat (of_char c) :: 16 word) = of_char c"
    by simp
  then show ?thesis
    by (simp add: of_nat_of_char)
qed

lemma js_inject [simp]: "(js s = js t) = (s = t)"
proof -
  have "inj (of_char :: char \<Rightarrow> 16 word)"
  proof (rule injI)
    fix c d :: char
    assume "(of_char c :: 16 word) = of_char d"
    then have "unat (of_char c :: 16 word) = unat (of_char d :: 16 word)"
      by simp
    then show "c = d"
      by (simp add: unat_of_char)
  qed
  then show ?thesis
    unfolding js_def by (rule inj_map_eq_map)
qed

lemma trim_eq_Nil: "(trim s = []) = (\<forall>c\<in>set s. isWhiteSpace c)"
proof
  assume "trim s = []"
  then have all: "\<forall>c\<in>set (dropWhile isWhiteSpace s). isWhiteSpace c"
    by (simp add: trim_def)
  have "dropWhile isWhiteSpace s = []"
  proof (cases "dropWhile isWhiteSpace s")
    case Nil
    then show ?thesis .
  next
    case (Cons c cs)
    then have "\<not> isWhiteSpace c"
      using hd_dropWhile [of isWhiteSpace s] by simp
    with Cons all show ?thesis by simp
  qed
  then show "\<forall>c\<in>set s. isWhiteSpace c"
    by simp
next
  assume "\<forall>c\<in>set s. isWhiteSpace c"
  then have "dropWhile isWhiteSpace s = []" by simp
  then show "trim s = []" by (simp add: trim_def del: dropWhile_eq_Nil_conv)
qed

lemma parseInt_blank: "trim s = [] \<Longrightarrow> parseInt s = None"
proof -
  assume "trim s = []"
  then have "dropWhile isWhiteSpace s = []"
    by (simp add: trim_eq_Nil)
  then show ?thesis
    by (simp add: parseInt_def del: dropWhile_eq_Nil_conv)
qed

lemma regex_test_replicate_One:
  "regex_test (replicate n (One p)) s = (length s = n \<and> list_all p s)"
proof (induction n arbitrary: s)
  case 0
  then show ?case by auto
next
  case (Suc n)
  then show ?case by (cases s) auto
qed

lemma digit_not_space: "isDigit c \<Longrightarrow> \<not> isWhiteSpace c"
proof
  assume "isDigit c"
  then have lo: "48 \<le> unat c" and hi: "unat c \<le> 57"
    by (simp_all add: isDigit_def word_le_nat_alt)
  assume "isWhiteSpace c"
  then have "unat c < 48 \<or> 57 < unat c"
    unfolding isWhiteSpace_def word_le_nat_alt
    by (elim disjE conjE) simp_all
  with lo hi show False by arith
qed

lemma validatePhone_iff: "validatePhone p = (length p = 10 \<and> list_all isDigit p)"
  by (simp add: validatePhone_def phoneRegex_def regex_test_replicate_One)

lemma validatePhone_trim: "validatePhone p \<Longrightarrow> trim p \<noteq> []"
proof -
  assume "validatePhone p"
  then have len: "length p = 10" and dig: "list_all isDigit p"
    by (simp_all add: validatePhone_iff)
  from len obtain c cs where "p = c # cs" by (cases p) auto
  with dig have "c \<in> set p" "\<not> isWhiteSpace c"
    by (auto dest: digit_not_space)
  then show ?thesis
    by (auto simp: trim_eq_Nil)
qed


lemma check_fullName_other:
  "k \<noteq> js ''fullName'' \<Longrightarrow> map_of (check_fullName fd errs) k = map_of errs k"
  by (simp add: check_fullName_def update_conv')

lemma check_email_other:
  "k \<noteq> js ''email'' \<Longrightarrow> map_of (check_email fd errs) k = map_of errs k"
  by (simp add: check_email_def update_conv')

lemma check_phone_other:
  "k \<noteq> js ''phone'' \<Longrightarrow> map_of (check_phone fd errs) k = map_of errs k"
  by (simp add: check_phone_def update_conv')

lemma check_experience_other:
  "k \<noteq> js ''experience'' \<Longrightarrow> map_of (check_experience fd errs) k = map_of errs k"
  by (simp add: check_experience_def update_conv')

lemma check_employmentStatus_other:
  "k \<noteq> js ''experience'' \<Longrightarrow> map_of (check_employmentStatus fd errs) k = map_of errs k"
  by (simp add: check_employmentStatus_def update_conv')

lemma check_currentCompany_other:
  "k \<noteq> js ''currentCompany'' \<Longrightarrow> map_of (check_currentCompany fd errs) k = map_of errs k"
  by (simp add: check_currentCompany_def update_conv')

lemma check_skills_other:
  "k \<noteq> js ''skills'' \<Longrightarrow> map_of (check_skills fd errs) k = map_of errs k"
  by (simp add: check_skills_def update_conv')

lemma check_declaration_other:
  "k \<noteq> js ''declaration'' \<Longrightarrow> map_of (check_declaration fd errs) k = map_of errs k"
  by (simp add: check_declaration_def update_conv')

lemmas check_other = check_fullName_other check_email_other check_phone_other
  check_experience_other check_employmentStatus_other check_currentCompany_other
  check_skills_other check_declaration_other

lemma check_phone_lookup:
  "map_of (check_phone fd errs) (js ''phone'') =
     (if trim (phone fd) = [] then Some (js ''Phone number is required'')
      else if \<not> validatePhone (phone fd) then Some (js ''Phone number must be exactly 10 digits'')
      else map_of errs (js ''phone''))"
  by (simp add: check_phone_def update_conv')

lemma check_experience_lookup:
  "map_of (check_experience fd errs) (js ''experience'') =
     (if trim (experience fd) = [] then Some (js ''Experience is required'')
      else if lt_zero (parseInt (experience fd)) \<or> isNaN (parseInt (experience fd))
        then Some (js ''Experience must be 0 or greater'')
      else map_of errs (js ''experience''))"
  by (simp add: check_experience_def update_conv')

lemma check_employmentStatus_lookup:
  "map_of (check_employmentStatus fd errs) (js ''experience'') =
     (if employmentStatus fd = [] then Some (js ''Please select your employment status'')
      else map_of errs (js ''experience''))"
  by (simp add: check_employmentStatus_def update_conv')

lemma lookup_phone:
  "map_of (fst (validateForm fd)) (js ''phone'') = map_of (check_phone fd []) (js ''phone'')"
  by (simp add: validateForm_def Let_def check_other check_phone_lookup)

lemma lookup_experience:
  "map_of (fst (validateForm fd)) (js ''experience'')
   = map_of (check_employmentStatus fd (check_experience fd [])) (js ''experience'')"
  by (simp add: validateForm_def Let_def check_other check_experience_lookup
      check_employmentStatus_lookup)

text \<open>
  Claim C2. For every draft whose employment status is unset, whole-form validation
  writes the employment-status message into the \<open>experience\<close> slot of the error map,
  whatever the experience check of the same pass had put there: the two failures
  share that one slot.
\<close>

theorem status_error_in_experience_slot:
  assumes "employmentStatus fd = []"
  shows "map_of (check_employmentStatus fd newErrors) (js ''experience'')
           = Some (js ''Please select your employment status'')
         \<and> map_of (fst (validateForm fd)) (js ''experience'')
           = Some (js ''Please select your employment status'')"
  using assms
  by (simp add: lookup_experience check_employmentStatus_lookup)

theorem status_error_in_experience_slot_witness:
  "employmentStatus (initialFormData []) = []
   \<and> map_of (check_experience (initialFormData []) []) (js ''experience'')
       = Some (js ''Experience is required'')
   \<and> map_of (check_employmentStatus (initialFormData [])
         (check_experience (initialFormData []) [])) (js ''experience'')
       = Some (js ''Please select your employment status'')
   \<and> map_of (fst (validateForm (initialFormData []))) (js ''experience'')
       = Some (js ''Please select your employment status'')"
proof -
  have unset: "employmentStatus (initialFormData []) = []"
    by (simp add: initialFormData_def)
  have "map_of (check_experience (initialFormData []) []) (js ''experience'')
       = Some (js ''Experience is required'')"
    by (simp add: check_experience_lookup initialFormData_def trim_def)
  then show ?thesis
    using unset status_error_in_experience_slot [OF unset] by simp
qed

text \<open>
  The error map of a form state holds no empty message: validation writes only its
  fixed, non-empty messages, and a change event only removes entries.
\<close>

lemma msgs_nonempty_update:
  "msgs_nonempty errs \<Longrightarrow> m \<noteq> [] \<Longrightarrow> msgs_nonempty (AList.update k m errs)"
  by (simp add: msgs_nonempty_def update_conv')

lemma msgs_nonempty_delete: "msgs_nonempty errs \<Longrightarrow> msgs_nonempty (AList.delete k errs)"
  by (simp add: msgs_nonempty_def delete_conv')

lemma check_msgs:
  assumes "msgs_nonempty errs"
  shows "msgs_nonempty (check_fullName fd errs)"
    and "msgs_nonempty (check_email fd errs)"
    and "msgs_nonempty (check_phone fd errs)"
    and "msgs_nonempty (check_experience fd errs)"
    and "msgs_nonempty (check_employmentStatus fd errs)"
    and "msgs_nonempty (check_currentCompany fd errs)"
    and "msgs_nonempty (check_skills fd errs)"
    and "msgs_nonempty (check_declaration fd errs)"
  using assms
  by (simp_all add: check_fullName_def check_email_def check_phone_def check_experience_def
      check_employmentStatus_def check_currentCompany_def check_skills_def
      check_declaration_def msgs_nonempty_update)

lemma validateForm_msgs: "msgs_nonempty (fst (validateForm fd))"
proof -
  have "msgs_nonempty []"
    by (simp add: msgs_nonempty_def)
  then show ?thesis
    unfolding validateForm_def Let_def fst_conv
    by (intro check_msgs)
qed

lemma form_state_msgs: "form_state prefill st \<Longrightarrow> msgs_nonempty (errors st)"
proof (induction rule: form_state.induct)
  case mounted
  then show ?case by (simp add: initialForm_def msgs_nonempty_def)
next
  case (changed st e)
  then show ?case
    by (simp add: handleInputChange_def Let_def msgs_nonempty_delete)
next
  case (submitted st)
  obtain errs ok where v: "validateForm (formData st) = (errs, ok)"
    by (cases "validateForm (formData st)")
  with validateForm_msgs [of "formData st"] have "msgs_nonempty errs"
    by simp
  then show ?case
    by (simp add: handleSubmit_def v)
next
  case (reset st)
  then show ?case by (simp add: submitAnother_def msgs_nonempty_def)
qed

lemma submit_empty_form:
  "map_of (errors (handleSubmit (initialForm []))) (js ''phone'')
     = Some (js ''Phone number is required'')
   \<and> map_of (errors (handleSubmit (initialForm []))) (js ''email'')
     = Some (js ''Email is required'')"
proof -
  have "errors (handleSubmit (initialForm [])) = fst (validateForm (initialFormData []))"
    by (simp add: handleSubmit_def initialForm_def split: prod.splits)
  moreover have "trim (phone (initialFormData [])) = []" "trim (email (initialFormData [])) = []"
    by (simp_all add: initialFormData_def trim_def)
  ultimately show ?thesis
    by (simp add: validateForm_def Let_def check_other check_phone_lookup
        check_email_def update_conv')
qed

text \<open>
  Claim C7. In every state of the form and for every field \<open>f\<close>, handling an input
  change on \<open>f\<close> leaves an error map with no entry for \<open>f\<close> (the entry is cleared at
  once, validation is not run again), and the entries of all other fields are as
  they were.
\<close>

theorem input_change_clears_error:
  assumes "form_state prefill st"
  shows "map_of (errors (handleInputChange e st)) (target_name e) = None
         \<and> (\<forall>f. f \<noteq> target_name e \<longrightarrow>
               map_of (errors (handleInputChange e st)) f = map_of (errors st) f)"
proof (cases "map_of (errors st) (target_name e)")
  case None
  then show ?thesis
    by (simp add: handleInputChange_def Let_def truthy_def)
next
  case (Some m)
  from assms have "msgs_nonempty (errors st)"
    by (rule form_state_msgs)
  with Some have "m \<noteq> []"
    by (simp add: msgs_nonempty_def)
  with Some show ?thesis
    by (simp add: handleInputChange_def Let_def truthy_def delete_conv')
qed

theorem input_change_clears_error_witness:
  "form_state [] (handleSubmit (initialForm []))
   \<and> map_of (errors (handleSubmit (initialForm []))) (js ''phone'')
       = Some (js ''Phone number is required'')
   \<and> map_of (errors (handleInputChange
         \<lparr>target_name = js ''phone'', target_value = js ''12a34'',
          target_type = js ''tel'', target_checked = False\<rparr>
         (handleSubmit (initialForm [])))) (js ''phone'') = None
   \<and> map_of (errors (handleInputChange
         \<lparr>target_name = js ''phone'', target_value = js ''12a34'',
          target_type = js ''tel'', target_checked = False\<rparr>
         (handleSubmit (initialForm [])))) (js ''email'') = Some (js ''Email is required'')"
proof -
  have reach: "form_state [] (handleSubmit (initialForm []))"
    by (rule form_state.submitted [OF form_state.mounted]) (simp add: initialForm_def)
  show ?thesis
    using reach submit_empty_form
      input_change_clears_error [OF reach,
        of "\<lparr>target_name = js ''phone'', target_value = js ''12a34'',
              target_type = js ''tel'', target_checked = False\<rparr>"]
    by simp
qed

text \<open>
  Claim C8. For every string typed into the phone field, the stored value is the
  input with every non-digit removed, cut to at most 10 characters; typing \<open>12a34\<close>
  stores \<open>1234\<close>; and whole-form validation leaves no phone error exactly when the
  stored value is 10 digits.
\<close>

theorem phone_filter_and_validation:
  "(target_name e = js ''phone'' \<and> target_type e \<noteq> js ''checkbox'' \<longrightarrow>
      phone (formData (handleInputChange e st)) = take 10 (filter isDigit (target_value e))
      \<and> length (phone (formData (handleInputChange e st))) \<le> 10)
   \<and> take 10 (filter isDigit (js ''12a34'')) = js ''1234''
   \<and> (map_of (fst (validateForm fd)) (js ''phone'') = None)
       = (length (phone fd) = 10 \<and> list_all isDigit (phone fd))"
proof (intro conjI impI)
  assume a: "target_name e = js ''phone'' \<and> target_type e \<noteq> js ''checkbox''"
  then show "phone (formData (handleInputChange e st)) = take 10 (filter isDigit (target_value e))"
    by (simp add: handleInputChange_def Let_def write_string_def replace_all_empty_def)
  then show "length (phone (formData (handleInputChange e st))) \<le> 10"
    by simp
next
  show "take 10 (filter isDigit (js ''12a34'')) = js ''1234''"
    by (simp add: js_def isDigit_def)
next
  show "(map_of (fst (validateForm fd)) (js ''phone'') = None)
       = (length (phone fd) = 10 \<and> list_all isDigit (phone fd))"
    using validatePhone_trim [of "phone fd"]
    by (auto simp: lookup_phone check_phone_lookup validatePhone_iff)
qed

theorem phone_filter_and_validation_witness:
  "target_name \<lparr>target_name = js ''phone'', target_value = js ''12a34'',
                 target_type = js ''tel'', target_checked = False\<rparr> = js ''phone''
   \<and> target_type \<lparr>target_name = js ''phone'', target_value = js ''12a34'',
                   target_type = js ''tel'', target_checked = False\<rparr> \<noteq> js ''checkbox''
   \<and> phone (formData (handleInputChange
        \<lparr>target_name = js ''phone'', target_value = js ''12a34'',
         target_type = js ''tel'', target_checked = False\<rparr> (initialForm []))) = js ''1234''
   \<and> map_of (fst (validateForm ((initialFormData [])\<lparr>phone := js ''1234567890''\<rparr>)))
        (js ''phone'') = None
   \<and> map_of (fst (validateForm ((initialFormData [])\<lparr>phone := js ''12345''\<rparr>)))
        (js ''phone'') \<noteq> None"
  using phone_filter_and_validation
          [of "\<lparr>target_name = js ''phone'', target_value = js ''12a34'',
                target_type = js ''tel'', target_checked = False\<rparr>"
              "initialForm []" "(initialFormData [])\<lparr>phone := js ''1234567890''\<rparr>"]
        phone_filter_and_validation
          [of "\<lparr>target_name = js ''phone'', target_value = js ''12a34'',
                target_type = js ''tel'', target_checked = False\<rparr>"
              "initialForm []" "(initialFormData [])\<lparr>phone := js ''12345''\<rparr>"]
  by (simp add: js_def isDigit_def)

lemma parseInt_5abc: "parseInt (js ''5abc'') = Some 5"
  by (simp add: parseInt_def js_def isWhiteSpace_def isRadixDigit_def digitOf_def
      radixValue_def)

lemma trim_5abc: "trim (js ''5abc'') \<noteq> []"
  by (simp add: trim_eq_Nil js_def isWhiteSpace_def)

text \<open>
  Claim C10. The experience check of whole-form validation parses an integer
  prefix: once an employment status is chosen, the experience field is rejected
  exactly when \<open>parseInt\<close> of it is \<open>NaN\<close> or negative. So \<open>5abc\<close>, which is not a
  numeral as a whole but whose prefix parses to 5, passes.
\<close>

theorem experience_prefix_parsing:
  "(map_of (check_experience fd []) (js ''experience'') \<noteq> None)
     = (isNaN (parseInt (experience fd)) \<or> lt_zero (parseInt (experience fd)))
   \<and> (employmentStatus fd \<noteq> [] \<longrightarrow>
        (map_of (fst (validateForm fd)) (js ''experience'') \<noteq> None)
          = (isNaN (parseInt (experience fd)) \<or> lt_zero (parseInt (experience fd))))
   \<and> parseInt (js ''5abc'') = Some 5
   \<and> \<not> list_all isDigit (js ''5abc'')
   \<and> (experience fd = js ''5abc'' \<and> employmentStatus fd \<noteq> [] \<longrightarrow>
        map_of (fst (validateForm fd)) (js ''experience'') = None)"
proof -
  have branch: "(map_of (check_experience fd []) (js ''experience'') \<noteq> None)
     = (isNaN (parseInt (experience fd)) \<or> lt_zero (parseInt (experience fd)))"
  proof (cases "trim (experience fd) = []")
    case True
    then have "isNaN (parseInt (experience fd))"
      by (simp add: isNaN_def parseInt_blank)
    with True show ?thesis
      by (simp add: check_experience_lookup)
  next
    case False
    then show ?thesis
      by (auto simp: check_experience_lookup)
  qed
  have whole: "map_of (fst (validateForm fd)) (js ''experience'')
      = map_of (check_experience fd []) (js ''experience'')"
    if "employmentStatus fd \<noteq> []"
    using that by (simp add: lookup_experience check_employmentStatus_lookup)
  have five: "map_of (check_experience fd []) (js ''experience'') = None"
    if "experience fd = js ''5abc''"
    using that
    by (simp add: check_experience_lookup parseInt_5abc trim_5abc isNaN_def lt_zero_def)
  have "\<not> list_all isDigit (js ''5abc'')"
    by (simp add: js_def isDigit_def)
  with branch whole five show ?thesis
    by (simp add: parseInt_5abc)
qed

theorem experience_prefix_parsing_witness:
  "employmentStatus ((initialFormData [])\<lparr>experience := js ''5abc'', employmentStatus := js ''no''\<rparr>)
     \<noteq> []
   \<and> parseInt (js ''5abc'') = Some 5
   \<and> map_of (fst (validateForm
        ((initialFormData [])\<lparr>experience := js ''5abc'', employmentStatus := js ''no''\<rparr>)))
        (js ''experience'') = None"
  using experience_prefix_parsing
          [of "(initialFormData [])\<lparr>experience := js ''5abc'', employmentStatus := js ''no''\<rparr>"]
  by simp

end
